theory Spec2Isabelle
  imports Complex_Main "HOL-Library.Sublist" "HOL-Library.Multiset"
begin

section \<open>JavaScript strings\<close>

text \<open>
  Strings are lists of code units; the scripts handled here are ASCII text. The helpers
  below are the string methods the services call: \<open>startsWith\<close> is \<^const>\<open>prefix\<close>,
  \<open>includes\<close>, \<open>split\<close> with a non-empty separator, and indexing an array of strings,
  where an index past the end reads \<open>undefined\<close> (here \<open>None\<close>).
\<close>

fun nth_opt :: "'a list \<Rightarrow> nat \<Rightarrow> 'a option" where
  "nth_opt [] n = None"
| "nth_opt (x # xs) 0 = Some x"
| "nth_opt (x # xs) (Suc n) = nth_opt xs n"

fun includes_str :: "string \<Rightarrow> string \<Rightarrow> bool" where
  "includes_str sub [] = (sub = [])"
| "includes_str sub (c # cs) = (prefix sub (c # cs) \<or> includes_str sub cs)"

text \<open>
  \<open>s.split(sep)\<close>: \<open>split_aux sep acc s\<close> scans \<open>s\<close> with the current piece reversed in
  \<open>acc\<close>; every occurrence of the separator closes a piece, the end of the string closes
  the last one.
\<close>

function split_aux :: "string \<Rightarrow> string \<Rightarrow> string \<Rightarrow> string list" where
  "split_aux sep acc [] = [rev acc]"
| "split_aux sep acc (c # cs) =
     (if sep \<noteq> [] \<and> prefix sep (c # cs)
      then rev acc # split_aux sep [] (drop (length sep) (c # cs))
      else split_aux sep (c # acc) cs)"
  by pat_completeness auto
termination
  by (relation "measure (\<lambda>(sep, acc, s). length s)") auto

definition split_str :: "string \<Rightarrow> string \<Rightarrow> string list" where
  "split_str sep s = split_aux sep [] s"

text \<open>\<open>s.replace(/seconds?/g, '')\<close>: every match of \<open>second\<close> with an optional \<open>s\<close> is removed.\<close>

function strip_seconds :: "string \<Rightarrow> string" where
  "strip_seconds [] = []"
| "strip_seconds (c # cs) =
     (if prefix ''seconds'' (c # cs) then strip_seconds (drop 7 (c # cs))
      else if prefix ''second'' (c # cs) then strip_seconds (drop 6 (c # cs))
      else c # strip_seconds cs)"
  by pat_completeness auto
termination
  by (relation "measure length") auto

section \<open>JavaScript numbers\<close>

text \<open>
  A number is \<open>NaN\<close>, an infinity or a finite value. Finite values are kept exact (a
  rational); the rounding of doubles is not part of the model. \<open>js_eq\<close> is the
  comparison \<open>==\<close> on numbers and \<open>js_le\<close> is \<open>\<le>\<close>: both are false as soon as one side
  is \<open>NaN\<close>.
\<close>

datatype jsnum = NaN | PInf | NInf | Fin rat

fun js_add :: "jsnum \<Rightarrow> jsnum \<Rightarrow> jsnum" where
  "js_add NaN y = NaN"
| "js_add x NaN = NaN"
| "js_add PInf NInf = NaN"
| "js_add NInf PInf = NaN"
| "js_add PInf y = PInf"
| "js_add x PInf = PInf"
| "js_add NInf y = NInf"
| "js_add x NInf = NInf"
| "js_add (Fin a) (Fin b) = Fin (a + b)"

fun js_neg :: "jsnum \<Rightarrow> jsnum" where
  "js_neg NaN = NaN"
| "js_neg PInf = NInf"
| "js_neg NInf = PInf"
| "js_neg (Fin a) = Fin (- a)"

definition js_sub :: "jsnum \<Rightarrow> jsnum \<Rightarrow> jsnum" where
  "js_sub x y = js_add x (js_neg y)"




subsection \<open>\<open>parseInt\<close> and \<open>parseFloat\<close>\<close>

text \<open>
  Both builtins skip leading white space, read a sign and then the longest prefix that is
  a numeral; they never throw: with no numeral to read the result is \<open>NaN\<close>.
\<close>

definition is_ws :: "char \<Rightarrow> bool" where
  "is_ws c = (c \<in> set [CHR 0x09, CHR 0x0A, CHR 0x0B, CHR 0x0C, CHR 0x0D, CHR 0x20, CHR 0xA0])"

definition is_digit :: "char \<Rightarrow> bool" where
  "is_digit c = (48 \<le> (of_char c :: nat) \<and> (of_char c :: nat) \<le> 57)"

definition digit_val :: "char \<Rightarrow> nat" where
  "digit_val c = of_char c - 48"

definition is_hex :: "char \<Rightarrow> bool" where
  "is_hex c = (is_digit c \<or> (97 \<le> (of_char c :: nat) \<and> (of_char c :: nat) \<le> 102)
                \<or> (65 \<le> (of_char c :: nat) \<and> (of_char c :: nat) \<le> 70))"

definition hex_val :: "char \<Rightarrow> nat" where
  "hex_val c = (if is_digit c then of_char c - 48
                else if 97 \<le> (of_char c :: nat) then of_char c - 87 else of_char c - 55)"

text \<open>The value of a digit string in a radix, most significant digit first.\<close>

definition radix_val :: "nat \<Rightarrow> (char \<Rightarrow> nat) \<Rightarrow> string \<Rightarrow> nat" where
  "radix_val r dv ds = foldl (\<lambda>n c. n * r + dv c) 0 ds"

text \<open>A leading sign: whether it is a minus, and the rest of the string.\<close>

fun read_sign :: "string \<Rightarrow> bool \<times> string" where
  "read_sign [] = (False, [])"
| "read_sign (c # cs) =
     (if c = CHR ''-'' then (True, cs) else if c = CHR ''+'' then (False, cs) else (False, c # cs))"

definition parseInt :: "string \<Rightarrow> jsnum" where
  "parseInt s =
     (let (neg, u) = read_sign (dropWhile is_ws s);
          hex = (prefix ''0x'' u \<or> prefix ''0X'' u);
          v = (if hex then drop 2 u else u);
          z = (if hex then takeWhile is_hex v else takeWhile is_digit v);
          n = (if hex then radix_val 16 hex_val z else radix_val 10 digit_val z)
      in if z = [] then NaN
         else Fin (if neg then - of_nat n else of_nat n))"

text \<open>
  The exponent part of a decimal literal: \<open>e\<close> or \<open>E\<close>, an optional sign and at least one
  digit. A part that is not well formed is not read (exponent 0).
\<close>

fun read_exponent :: "string \<Rightarrow> int" where
  "read_exponent [] = 0"
| "read_exponent (c # cs) =
     (if c = CHR ''e'' \<or> c = CHR ''E''
      then (let (neg, u) = read_sign cs; ds = takeWhile is_digit u
            in if ds = [] then 0
               else if neg then - int (radix_val 10 digit_val ds)
               else int (radix_val 10 digit_val ds))
      else 0)"

definition scale10 :: "rat \<Rightarrow> int \<Rightarrow> rat" where
  "scale10 q e = (if 0 \<le> e then q * 10 ^ nat e else q / 10 ^ nat (- e))"

definition parseFloat :: "string \<Rightarrow> jsnum" where
  "parseFloat s =
     (let (neg, u) = read_sign (dropWhile is_ws s)
      in if prefix ''Infinity'' u then (if neg then NInf else PInf)
         else
           (let ip = takeWhile is_digit u;
                r1 = dropWhile is_digit u;
                dot = (r1 \<noteq> [] \<and> hd r1 = CHR ''.'');
                fp = (if dot then takeWhile is_digit (tl r1) else []);
                r2 = (if dot then dropWhile is_digit (tl r1) else r1);
                m = of_nat (radix_val 10 digit_val ip)
                    + of_nat (radix_val 10 digit_val fp) / 10 ^ length fp;
                q = scale10 m (read_exponent r2)
            in if ip = [] \<and> fp = [] then NaN
               else Fin (if neg then - q else q)))"

text \<open>A value that is not a string is converted first: \<open>undefined\<close> reads as its name.\<close>

definition to_string :: "string option \<Rightarrow> string" where
  "to_string v = (case v of None \<Rightarrow> ''undefined'' | Some s \<Rightarrow> s)"

section \<open>Scene decomposition: \<open>VideoGenerator.parseScene\<close>\<close>

record scene =
  scene_text :: string
  duration :: jsnum
  scene_number :: jsnum
  start_time :: jsnum
  end_time :: jsnum

definition realism_prefix :: string where
  "realism_prefix =
     ''This is a high-quality scene of live film captured by camera not photo, not cartoon. '' @
     ''Remember this. Everything of the scene(door, trees, people, etc.) is sharp and clear. '' @
     ''This is the real scene. This is the most important thing. Like Real handsome men and '' @
     ''beautiful women, Real Environment, The Real scene. **manequins mustn'' @ [CHR 0x27] @
     ''t move. People should be real and not cartoonish and overlay text should be real.** '' @
     ''When describing a mirror, the image reflected in the mirror and the image outside must '' @
     ''be exactly the same. description: ''"

definition duration_delim :: string where
  "duration_delim = ''| Duration:''"

definition qualifies :: "string \<Rightarrow> bool" where
  "qualifies line = (prefix ''SCENE'' line \<and> includes_str duration_delim line)"

text \<open>
  The body of the loop for one line, given the running \<open>currentTime\<close>: the scene it
  pushes, if any. No statement of the body can throw (\<open>parseInt\<close> and \<open>parseFloat\<close>
  return \<open>NaN\<close>, an index past the end reads \<open>undefined\<close>), so the \<open>catch\<close> branch of the
  source is never taken and has no counterpart here; the only line that pushes nothing is
  one that does not split into exactly two parts at the duration delimiter.
\<close>

definition parse_line :: "jsnum \<Rightarrow> string \<Rightarrow> scene option" where
  "parse_line currentTime line =
     (if qualifies line then
        (let scenePart = hd (split_str '':'' line);
             sceneNumber = parseInt (to_string (nth_opt (split_str '' '' scenePart) 1));
             parts = split_str duration_delim line
         in if length parts = 2 then
              (let description = realism_prefix @ to_string (nth_opt (split_str '':'' (parts ! 0)) 1);
                   durationText = parts ! 1;
                   durationStr = strip_seconds durationText;
                   dur = parseFloat durationStr
               in Some \<lparr> scene_text = description, duration = dur, scene_number = sceneNumber,
                         start_time = currentTime, end_time = js_add currentTime dur \<rparr>)
            else None)
      else None)"

text \<open>The first loop: the scenes pushed so far, in source order, and the running time.\<close>

fun scan_lines :: "jsnum \<Rightarrow> string list \<Rightarrow> scene list" where
  "scan_lines currentTime [] = []"
| "scan_lines currentTime (line # lines) =
     (case parse_line currentTime line of
        None \<Rightarrow> scan_lines currentTime lines
      | Some sc \<Rightarrow> sc # scan_lines (js_add currentTime (duration sc)) lines)"

text \<open>
  \<open>scenes.sort((a, b) => a.scene_number - b.scene_number)\<close>. The sort of the language is
  stable and reads a comparator result of \<open>NaN\<close> as 0. It is modelled by a stable insertion
  sort; for a comparator that is a total preorder on the elements every stable sort gives
  this result.
\<close>

definition compare_scenes :: "scene \<Rightarrow> scene \<Rightarrow> jsnum" where
  "compare_scenes a b = js_sub (scene_number a) (scene_number b)"

fun is_positive :: "jsnum \<Rightarrow> bool" where
  "is_positive PInf = True"
| "is_positive (Fin a) = (0 < a)"
| "is_positive x = False"

fun insert_scene :: "scene \<Rightarrow> scene list \<Rightarrow> scene list" where
  "insert_scene x [] = [x]"
| "insert_scene x (y # ys) =
     (if is_positive (compare_scenes x y) then y # insert_scene x ys else x # y # ys)"

definition sort_scenes :: "scene list \<Rightarrow> scene list" where
  "sort_scenes xs = foldr insert_scene xs []"

text \<open>The second loop: start and end times recomputed in sorted order.\<close>

fun retime :: "jsnum \<Rightarrow> scene list \<Rightarrow> scene list" where
  "retime currentTime [] = []"
| "retime currentTime (sc # scs) =
     sc \<lparr> start_time := currentTime, end_time := js_add currentTime (duration sc) \<rparr>
       # retime (js_add currentTime (duration sc)) scs"

definition parseScene :: "string \<Rightarrow> scene list" where
  "parseScene aiResponse =
     retime (Fin 0) (sort_scenes (scan_lines (Fin 0) (split_str [CHR 0x0A] aiResponse)))"

section \<open>The task registry: \<open>TaskManager\<close>\<close>

text \<open>
  A task is an object: a finite map from property names to values. The registry is the
  \<open>Map\<close> from task ids to tasks. An \<open>Error\<close> is modelled by its message, which is all the
  services ever read of one. The fresh id (\<open>uuidv4()\<close>) and the time (\<open>new Date()\<close>) are
  arguments.
\<close>

datatype jsval = Undefined | Null | Str string | Num int | Date nat | Obj "(string \<times> jsval) list"

type_synonym task = "string \<rightharpoonup> jsval"

type_synonym registry = "string \<rightharpoonup> task"

definition createTask :: "registry \<Rightarrow> string \<Rightarrow> nat \<Rightarrow> jsval \<Rightarrow> jsval \<Rightarrow> task \<times> registry" where
  "createTask reg taskId now type data =
     (let task = [''id'' \<mapsto> Str taskId, ''type'' \<mapsto> type, ''status'' \<mapsto> Str ''pending'',
                  ''progress'' \<mapsto> Num 0, ''message'' \<mapsto> Str ''Task created'', ''data'' \<mapsto> data,
                  ''createdAt'' \<mapsto> Date now, ''updatedAt'' \<mapsto> Date now, ''error'' \<mapsto> Null]
      in (task, reg(taskId \<mapsto> task)))"

text \<open>
  \<open>Object.assign(task, updates, { updatedAt: new Date() })\<close> copies the properties of
  \<open>updates\<close> and then \<open>updatedAt\<close> onto the stored task. The result is the thrown error or
  the updated task, together with the registry afterwards.
\<close>

definition updateTask :: "registry \<Rightarrow> nat \<Rightarrow> string \<Rightarrow> task \<Rightarrow> (string + task) \<times> registry" where
  "updateTask reg now taskId updates =
     (case reg taskId of
        None \<Rightarrow> (Inl (''Task '' @ taskId @ '' not found''), reg)
      | Some task \<Rightarrow>
          (let task' = task ++ updates ++ [''updatedAt'' \<mapsto> Date now]
           in (Inr task', reg(taskId \<mapsto> task'))))"

definition getTask :: "registry \<Rightarrow> string \<Rightarrow> task option" where
  "getTask reg taskId = reg taskId"

section \<open>The world outside the services\<close>

text \<open>
  The providers, the file system and the concatenation tool are not part of the program.
  An \<open>env\<close> fixes what they answer during one run: the reply of the script and motion
  prompt requests (\<open>None\<close> when the request throws), the outcome of the image and clip
  generation of scene \<open>i\<close> at attempt \<open>k\<close>, the files that exist and can be read, whether
  the tool and the file operations succeed, and the \<open>path\<close> functions of the platform.
  Waiting (\<open>setTimeout\<close>) has no counterpart: it changes no value.
\<close>

datatype attempt = Succeeds | TaskFailedError | Fails

record env =
  script_reply :: "string \<Rightarrow> string option"
  motion_reply :: "string \<Rightarrow> string option"
  image_outcome :: "nat \<Rightarrow> nat \<Rightarrow> attempt"
  video_outcome :: "nat \<Rightarrow> nat \<Rightarrow> attempt"
  data_uri :: "string \<Rightarrow> string"
  readable :: "string \<Rightarrow> bool"
  path_exists :: "string \<Rightarrow> bool"
  write_ok :: "string \<Rightarrow> bool"
  exec_ok :: "string \<Rightarrow> bool"
  remove_ok :: "string \<Rightarrow> bool"
  timestamp :: string
  outputDir :: string
  path_join :: "string \<Rightarrow> string \<Rightarrow> string"
  path_dirname :: "string \<Rightarrow> string"
  path_isAbsolute :: "string \<Rightarrow> bool"
  path_resolve :: "string \<Rightarrow> string \<Rightarrow> string"

text \<open>What a run asks of the world, in the order it asks.\<close>

datatype call =
    ScriptReq string
  | ImageReq string "string option"
  | MotionReq string
  | VideoReq string string
  | WriteFile string string
  | Exec string
  | RemoveFile string

text \<open>\<open>String(n).padStart(2, '0')\<close>.\<close>

function string_of_nat :: "nat \<Rightarrow> string" where
  "string_of_nat n =
     (if n < 10 then [char_of (48 + n)]
      else string_of_nat (n div 10) @ [char_of (48 + n mod 10)])"
  by pat_completeness auto
termination
  by (relation "measure id") auto

declare string_of_nat.simps [simp del]

definition pad2 :: "nat \<Rightarrow> string" where
  "pad2 n = replicate (2 - length (string_of_nat n)) (CHR ''0'') @ string_of_nat n"

definition maxRetries :: nat where
  "maxRetries = 3"

section \<open>The visual stage: \<open>ImageGenerator\<close>\<close>

text \<open>
  \<open>generateImageWithRunway\<close>: the loop \<open>while (retryCount < maxRetries)\<close>, started at
  \<open>retryCount\<close>. One pass issues one request, with the reference image unless it is
  \<open>"None"\<close> or empty. A pass that succeeds returns the saved path; every failure (the
  provider's task failure, any other error, a download that gave no path) lands in the
  \<open>catch\<close> block, which counts the attempt and either loops or returns \<open>null\<close>. The
  result comes with the number of passes made and the requests issued.
\<close>

definition image_request :: "string \<Rightarrow> string \<Rightarrow> call" where
  "image_request prompt refImage =
     (if refImage = ''None'' \<or> refImage = [] then ImageReq prompt None
      else ImageReq (prompt @ ''Draw different from the reference image or Draw similar to the reference image'')
             (Some refImage))"

function image_loop ::
  "env \<Rightarrow> (nat \<Rightarrow> attempt) \<Rightarrow> string \<Rightarrow> string \<Rightarrow> string \<Rightarrow> nat \<Rightarrow> string option \<times> nat \<times> call list" where
  "image_loop e outcome prompt filename refImage retryCount =
     (if retryCount < maxRetries then
        (let req = image_request prompt refImage;
             result = path_join e (outputDir e) filename;
             again = (if Suc retryCount < maxRetries
                      then image_loop e outcome prompt filename refImage (Suc retryCount)
                      else (None, 0, []))
         in case outcome retryCount of
              Succeeds \<Rightarrow>
                (if result \<noteq> [] then (Some result, 1, [req])
                 else (fst again, Suc (fst (snd again)), req # snd (snd again)))
            | TaskFailedError \<Rightarrow> (fst again, Suc (fst (snd again)), req # snd (snd again))
            | Fails \<Rightarrow> (fst again, Suc (fst (snd again)), req # snd (snd again)))
      else (None, 0, []))"
  by pat_completeness auto
termination
  by (relation "measure (\<lambda>(e, outcome, prompt, filename, refImage, retryCount). maxRetries - retryCount)") auto

declare image_loop.simps [simp del]

definition generateImageWithRunway ::
  "env \<Rightarrow> (nat \<Rightarrow> attempt) \<Rightarrow> string \<Rightarrow> string \<Rightarrow> string \<Rightarrow> string option \<times> nat \<times> call list" where
  "generateImageWithRunway e outcome prompt filename refImage =
     image_loop e outcome prompt filename refImage 0"

text \<open>
  \<open>generateVisualsForScenes\<close>: the loop over the scenes, at index \<open>i\<close> with the current
  \<open>refImage\<close>. Each entry of the result is the slot of one scene (\<open>None\<close> for \<open>null\<close>) with
  the passes and requests made for it. \<open>refImage\<close> is assigned only when the scene gave an
  image. The prompt \<open>scene.text || scene\<close> is the text of the scene, which is never empty
  for a scene of \<open>parseScene\<close>.
\<close>

fun visuals_loop ::
  "env \<Rightarrow> scene list \<Rightarrow> nat \<Rightarrow> string \<Rightarrow> (string option \<times> nat \<times> call list) list" where
  "visuals_loop e [] i refImage = []"
| "visuals_loop e (sc # scs) i refImage =
     (let baseFilename = ''image_'' @ pad2 (i + 1) @ ''.png'';
          r = generateImageWithRunway e (image_outcome e i) (scene_text sc) baseFilename refImage;
          refImage' = (case fst r of Some imagePath \<Rightarrow> data_uri e imagePath | None \<Rightarrow> refImage)
      in r # visuals_loop e scs (Suc i) refImage')"

definition generateVisualsForScenes ::
  "env \<Rightarrow> scene list \<Rightarrow> (string option \<times> nat \<times> call list) list" where
  "generateVisualsForScenes e scenes = visuals_loop e scenes 0 ''None''"

section \<open>The clip stage: \<open>VideoGenerator.generateVideoWithRunway\<close>\<close>

text \<open>
  The loop \<open>while (retryCount < maxRetries && !success)\<close> for one scene. A pass first
  reads the image (which throws when the path is \<open>null\<close> or the file cannot be read, before
  any request is made), then requests the clip and saves it. Every failure is caught,
  counted, and after the last one \<open>null\<close> is pushed.
\<close>

function video_loop ::
  "env \<Rightarrow> (nat \<Rightarrow> attempt) \<Rightarrow> string \<Rightarrow> string option \<Rightarrow> string \<Rightarrow> nat \<Rightarrow> string option \<times> nat \<times> call list" where
  "video_loop e outcome script imagePath filename retryCount =
     (if retryCount < maxRetries then
        (let videoPath = path_join e (outputDir e) filename;
             again = (if Suc retryCount < maxRetries
                      then video_loop e outcome script imagePath filename (Suc retryCount)
                      else (None, 0, []))
         in case imagePath of
              None \<Rightarrow> (fst again, Suc (fst (snd again)), snd (snd again))
            | Some img \<Rightarrow>
                (if \<not> readable e img then (fst again, Suc (fst (snd again)), snd (snd again))
                 else if outcome retryCount = Succeeds \<and> videoPath \<noteq> []
                 then (Some videoPath, 1, [VideoReq img script])
                 else (fst again, Suc (fst (snd again)), VideoReq img script # snd (snd again))))
      else (None, 0, []))"
  by pat_completeness auto
termination
  by (relation "measure (\<lambda>(e, outcome, script, imagePath, filename, retryCount). maxRetries - retryCount)") auto

declare video_loop.simps [simp del]

text \<open>The loop over the scripts; \<open>imagePaths[i]\<close> past the end reads \<open>undefined\<close>.\<close>

fun clips_loop ::
  "env \<Rightarrow> string list \<Rightarrow> string option list \<Rightarrow> nat \<Rightarrow> (string option \<times> nat \<times> call list) list" where
  "clips_loop e [] imagePaths i = []"
| "clips_loop e (script # scripts) imagePaths i =
     video_loop e (video_outcome e i) script
        (case nth_opt imagePaths i of None \<Rightarrow> None | Some p \<Rightarrow> p)
        (''video_'' @ pad2 (i + 1) @ ''.mp4'') 0
       # clips_loop e scripts imagePaths (Suc i)"

definition generateVideoWithRunway ::
  "env \<Rightarrow> string list \<Rightarrow> string option list \<Rightarrow> (string option \<times> nat \<times> call list) list" where
  "generateVideoWithRunway e videoScripts imagePaths = clips_loop e videoScripts imagePaths 0"

section \<open>The assembly stage: \<open>VideoGenerator.concatenateVideos\<close>\<close>

definition quoted :: "string \<Rightarrow> string" where
  "quoted s = [CHR 0x22] @ s @ [CHR 0x22]"

fun join_str :: "string \<Rightarrow> string list \<Rightarrow> string" where
  "join_str sep [] = []"
| "join_str sep [x] = x"
| "join_str sep (x # y # ys) = x @ sep @ join_str sep (y # ys)"

text \<open>
  \<open>createFFmpegConcatenationCommand\<close>: the command, or \<open>None\<close> when building it throws
  (\<open>path.resolve\<close> of an \<open>undefined\<close> component, or the manifest cannot be written), and the
  file it wrote. A single clip is copied; several clips go through the manifest
  \<open>filelist.txt\<close>, one \<open>file '...'\<close> line per clip in the order given.
\<close>

definition absolute_path :: "env \<Rightarrow> string \<Rightarrow> string option" where
  "absolute_path e videoPath =
     (if path_isAbsolute e videoPath then Some videoPath
      else (case nth_opt (split_str [CHR 0x5C] videoPath) 1 of
              None \<Rightarrow> None
            | Some name \<Rightarrow> Some (path_resolve e (outputDir e) name)))"

definition manifest_line :: "string \<Rightarrow> string" where
  "manifest_line videoPath =
     ''file '' @ [CHR 0x27] @ map (\<lambda>c. if c = CHR 0x5C then CHR ''/'' else c) videoPath @ [CHR 0x27]"

definition createFFmpegConcatenationCommand ::
  "env \<Rightarrow> string list \<Rightarrow> string \<Rightarrow> string option \<times> call list" where
  "createFFmpegConcatenationCommand e videoPaths outputPath =
     (if length videoPaths = 1
      then (Some (''ffmpeg -i '' @ quoted (videoPaths ! 0) @ '' -c copy '' @ quoted outputPath), [])
      else
        (let fileListPath = path_join e (path_dirname e outputPath) ''filelist.txt''
         in case those (map (absolute_path e) videoPaths) of
              None \<Rightarrow> (None, [])
            | Some absoluteVideoPaths \<Rightarrow>
                (let fileListContent = join_str [CHR 0x0A] (map manifest_line absoluteVideoPaths)
                 in if write_ok e fileListPath
                    then (Some (''ffmpeg -f concat -safe 0 -i '' @ quoted fileListPath
                                @ '' -c copy '' @ quoted outputPath),
                          [WriteFile fileListPath fileListContent])
                    else (None, [WriteFile fileListPath fileListContent]))))"

text \<open>The clips that are not \<open>null\<close>, not empty and exist on disk, in the order given.\<close>

fun valid_paths :: "env \<Rightarrow> string option list \<Rightarrow> string list" where
  "valid_paths e [] = []"
| "valid_paths e (None # ps) = valid_paths e ps"
| "valid_paths e (Some videoPath # ps) =
     (if videoPath \<noteq> [] \<and> path_exists e videoPath then videoPath # valid_paths e ps
      else valid_paths e ps)"

text \<open>
  \<open>concatenateVideos\<close>. The whole body is one \<open>try\<close> block whose \<open>catch\<close> returns \<open>null\<close>:
  a failure to build the command, a failing tool and a failing removal of the manifest all
  end there. The manifest exists after the tool has run when it was written for this run or
  was there before.
\<close>

definition concatenateVideos :: "env \<Rightarrow> string option list \<Rightarrow> string option \<times> call list" where
  "concatenateVideos e videoPaths =
     (if videoPaths = [] then (None, [])
      else
        (let validVideoPaths = valid_paths e videoPaths
         in if validVideoPaths = [] then (None, [])
            else
              (let outputFilename = ''combined_video_'' @ timestamp e @ ''.mp4'';
                   outputPath = path_join e (outputDir e) outputFilename
               in case createFFmpegConcatenationCommand e validVideoPaths outputPath of
                    (None, written) \<Rightarrow> (None, written)
                  | (Some ffmpegCommand, written) \<Rightarrow>
                      (if \<not> exec_ok e ffmpegCommand then (None, written @ [Exec ffmpegCommand])
                       else
                         (let fileListPath = path_join e (path_dirname e outputPath) ''filelist.txt''
                          in if written \<noteq> [] \<or> path_exists e fileListPath
                             then (if remove_ok e fileListPath
                                   then (Some outputPath,
                                         written @ [Exec ffmpegCommand, RemoveFile fileListPath])
                                   else (None, written @ [Exec ffmpegCommand, RemoveFile fileListPath]))
                             else (Some outputPath, written @ [Exec ffmpegCommand]))))))"

section \<open>The orchestrator: \<open>VideoGenerator.generateVideo\<close>\<close>

text \<open>
  The state a run changes: the registry, the clock, the task updates broadcast so far
  (each \<open>broadcastTaskUpdate(taskId, getTask(taskId))\<close>, in order) and the calls made to the
  world.
\<close>

record world =
  tasks :: registry
  clock :: nat
  broadcasts :: "(string \<times> task option) list"
  calls :: "call list"

text \<open>
  Every update in the services is the pair \<open>taskManager.updateTask(taskId, updates)\<close>,
  \<open>wsManager.broadcastTaskUpdate(taskId, taskManager.getTask(taskId))\<close>. When the update
  throws the broadcast is not reached and the state is as before.
\<close>

definition update_and_broadcast :: "world \<Rightarrow> string \<Rightarrow> task \<Rightarrow> string + world" where
  "update_and_broadcast w taskId updates =
     (case updateTask (tasks w) (clock w) taskId updates of
        (Inl err, reg) \<Rightarrow> Inl err
      | (Inr t, reg) \<Rightarrow>
          Inr (w \<lparr> tasks := reg, clock := Suc (clock w),
                   broadcasts := broadcasts w @ [(taskId, getTask reg taskId)] \<rparr>))"

definition called :: "world \<Rightarrow> call list \<Rightarrow> world" where
  "called w cs = w \<lparr> calls := calls w @ cs \<rparr>"

text \<open>\<open>generateScript\<close>: any failure of the request is rethrown with a fixed message.\<close>

definition generateScript :: "env \<Rightarrow> string \<Rightarrow> string + string" where
  "generateScript e prompt =
     (case script_reply e prompt of
        None \<Rightarrow> Inl ''Failed to generate video script''
      | Some content \<Rightarrow> Inr content)"

definition cinematic_prefix :: string where
  "cinematic_prefix =
     ''This is a high-quality cinematic scene captured by a professional camera, not a photo, '' @
     ''not a cartoon. The motion is continuous and natural '' @ [CHR 0xE2, CHR 0x80, CHR 0x94] @
     '' no sudden appearances or disappearances of people or objects, no surreal effects. ''"

text \<open>
  The motion prompts, one request per scene; \<open>None\<close> when a request throws. (The dash in
  the fixed prefix above is written as its three UTF-8 bytes.)
\<close>

fun motion_scripts :: "env \<Rightarrow> scene list \<Rightarrow> string list option \<times> call list" where
  "motion_scripts e [] = (Some [], [])"
| "motion_scripts e (sc # scs) =
     (case motion_reply e (scene_text sc) of
        None \<Rightarrow> (None, [MotionReq (scene_text sc)])
      | Some content \<Rightarrow>
          (case motion_scripts e scs of
             (None, cs) \<Rightarrow> (None, MotionReq (scene_text sc) # cs)
           | (Some videoScripts, cs) \<Rightarrow>
               (Some ((cinematic_prefix @ content) # videoScripts), MotionReq (scene_text sc) # cs)))"

text \<open>
  The \<open>try\<close> block of \<open>generate\<close>: \<open>None\<close> when it throws (the message is replaced by the
  \<open>catch\<close> block), otherwise the path of the final video, which is \<open>null\<close> when the
  assembly gave none.
\<close>

definition generate_try :: "env \<Rightarrow> scene list \<Rightarrow> string \<Rightarrow> world \<Rightarrow> string option option \<times> world" where
  "generate_try e scenes taskId w =
     (case update_and_broadcast w taskId
             [''progress'' \<mapsto> Num 40, ''message'' \<mapsto> Str ''Generating images for scenes...''] of
        Inl err \<Rightarrow> (None, w)
      | Inr w1 \<Rightarrow>
          (let visuals = generateVisualsForScenes e scenes;
               imagePaths = map fst visuals;
               w2 = called w1 (concat (map (\<lambda>r. snd (snd r)) visuals))
           in if imagePaths = [] then (None, w2)
              else
                (case motion_scripts e scenes of
                   (None, cs) \<Rightarrow> (None, called w2 cs)
                 | (Some videoScripts, cs) \<Rightarrow>
                     (case update_and_broadcast (called w2 cs) taskId
                             [''progress'' \<mapsto> Num 60, ''message'' \<mapsto> Str ''Generating videos from images...''] of
                        Inl err \<Rightarrow> (None, called w2 cs)
                      | Inr w3 \<Rightarrow>
                          (let clips = generateVideoWithRunway e videoScripts imagePaths;
                               videoPaths = map fst clips;
                               w4 = called w3 (concat (map (\<lambda>r. snd (snd r)) clips))
                           in if videoPaths \<noteq> [] then
                                (case update_and_broadcast w4 taskId
                                        [''progress'' \<mapsto> Num 80,
                                         ''message'' \<mapsto> Str ''Concatenating videos with transitions...''] of
                                   Inl err \<Rightarrow> (None, w4)
                                 | Inr w5 \<Rightarrow>
                                     (let (finalVideoPath, cs') = concatenateVideos e videoPaths
                                      in (Some finalVideoPath, called w5 cs')))
                              else (None, w4))))))"

definition generate :: "env \<Rightarrow> scene list \<Rightarrow> string \<Rightarrow> world \<Rightarrow> (string + string option) \<times> world" where
  "generate e scenes taskId w =
     (case generate_try e scenes taskId w of
        (None, w') \<Rightarrow> (Inl ''Failed to generate video with RunwayML'', w')
      | (Some finalVideoPath, w') \<Rightarrow> (Inr finalVideoPath, w'))"

text \<open>
  The \<open>try\<close> block of \<open>generateVideo\<close>: the error thrown or the path returned. Only the
  first scene is handed to \<open>generate\<close> (\<open>scenes.slice(0,1)\<close>).
\<close>

definition generateVideo_try :: "env \<Rightarrow> string \<Rightarrow> string \<Rightarrow> world \<Rightarrow> (string + string) \<times> world" where
  "generateVideo_try e prompt taskId w =
     (case update_and_broadcast w taskId
             [''status'' \<mapsto> Str ''running'', ''progress'' \<mapsto> Num 10,
              ''message'' \<mapsto> Str ''Generating video script...''] of
        Inl err \<Rightarrow> (Inl err, w)
      | Inr w1 \<Rightarrow>
          (case generateScript e prompt of
             Inl err \<Rightarrow> (Inl err, called w1 [ScriptReq prompt])
           | Inr scriptResponse \<Rightarrow>
               (let scenes = parseScene scriptResponse;
                    w2 = called w1 [ScriptReq prompt]
                in if scenes = [] then (Inl ''Failed to parse scenes from script'', w2)
                   else
                     (case update_and_broadcast w2 taskId
                             [''progress'' \<mapsto> Num 30,
                              ''message'' \<mapsto> Str ''Script generated, creating video...''] of
                        Inl err \<Rightarrow> (Inl err, w2)
                      | Inr w3 \<Rightarrow>
                          (case generate e (take 1 scenes) taskId w3 of
                             (Inl err, w4) \<Rightarrow> (Inl err, w4)
                           | (Inr None, w4) \<Rightarrow> (Inl ''Video generation failed'', w4)
                           | (Inr (Some videoPath), w4) \<Rightarrow>
                               (if videoPath = [] then (Inl ''Video generation failed'', w4)
                                else
                                  (case update_and_broadcast w4 taskId
                                          [''status'' \<mapsto> Str ''completed'', ''progress'' \<mapsto> Num 100,
                                           ''message'' \<mapsto> Str ''Video generation completed successfully!'',
                                           ''data'' \<mapsto> Obj [(''videoPath'', Str videoPath)]] of
                                     Inl err \<Rightarrow> (Inl err, w4)
                                   | Inr w5 \<Rightarrow> (Inr videoPath, w5))))))))"

text \<open>
  \<open>generateVideo\<close>: the \<open>catch\<close> block records the failure and rethrows. If recording
  itself throws (the task is not in the registry), that error is the one that leaves.
\<close>

definition generateVideo :: "env \<Rightarrow> string \<Rightarrow> string \<Rightarrow> world \<Rightarrow> (string + string) \<times> world" where
  "generateVideo e prompt taskId w =
     (case generateVideo_try e prompt taskId w of
        (Inr videoPath, w') \<Rightarrow> (Inr videoPath, w')
      | (Inl err, w') \<Rightarrow>
          (case update_and_broadcast w' taskId [''status'' \<mapsto> Str ''failed'', ''error'' \<mapsto> Str err] of
             Inl err' \<Rightarrow> (Inl err', w')
           | Inr w'' \<Rightarrow> (Inl err, w'')))"

section \<open>Vocabulary of the properties\<close>








text \<open>
  What a broadcast snapshot of a task shows: its \<open>status\<close>, and its \<open>progress\<close> as a number
  (\<open>-1\<close> for a snapshot without a numeric progress).
\<close>

definition status_of :: "task option \<Rightarrow> jsval option" where
  "status_of snap = (case snap of None \<Rightarrow> None | Some t \<Rightarrow> t ''status'')"

definition progress_of :: "task option \<Rightarrow> int" where
  "progress_of snap =
     (case snap of None \<Rightarrow> - 1 | Some t \<Rightarrow> (case t ''progress'' of Some (Num n) \<Rightarrow> n | _ \<Rightarrow> - 1))"

subsection \<open>Sample inputs\<close>

definition example_script :: string where
  "example_script =
     ''SCENE 1: A sunrise | Duration: 10 seconds'' @ [CHR 0x0A] @ ''SCENE 2: A sunset | Duration: 10 seconds''"



text \<open>A world in which every provider answers and every file operation succeeds.\<close>

definition example_env :: env where
  "example_env = \<lparr> script_reply = (\<lambda>p. Some example_script), motion_reply = (\<lambda>t. Some ''slow pan''),
     image_outcome = (\<lambda>i k. Succeeds), video_outcome = (\<lambda>i k. Succeeds),
     data_uri = (\<lambda>p. ''data:image/png;base64,'' @ p), readable = (\<lambda>p. True),
     path_exists = (\<lambda>p. p \<noteq> ''output/filelist.txt''), write_ok = (\<lambda>p. True), exec_ok = (\<lambda>c. True),
     remove_ok = (\<lambda>p. True), timestamp = ''2025-01-01T00-00-00'', outputDir = ''output'',
     path_join = (\<lambda>d f. d @ ''/'' @ f), path_dirname = (\<lambda>p. ''output''),
     path_isAbsolute = (\<lambda>p. True), path_resolve = (\<lambda>d f. d @ ''/'' @ f) \<rparr>"


text \<open>
  Variations: the script provider answers with text that has no scene line; every path
  exists (so a manifest is there) and no file can be removed.
\<close>

definition refusing_env :: env where
  "refusing_env = example_env \<lparr> script_reply := (\<lambda>p. Some ''Sorry, I cannot help with that.'') \<rparr>"

definition removal_fails :: env where
  "removal_fails = example_env \<lparr> path_exists := (\<lambda>p. True), remove_ok := (\<lambda>p. False) \<rparr>"

text \<open>The state right after the submission route has created the task \<open>t1\<close>.\<close>

definition example_world :: world where
  "example_world =
     \<lparr> tasks = snd (createTask Map.empty ''t1'' 0 (Str ''video'') (Obj [(''prompt'', Str ''ad'')])),
       clock = 1, broadcasts = [], calls = [] \<rparr>"

section \<open>Scene decomposition\<close>

subsection \<open>Sorting and timing\<close>






lemma length_insert_scene: "length (insert_scene x ys) = Suc (length ys)"
  by (induction ys) auto

lemma length_sort_scenes: "length (sort_scenes xs) = length xs"
  by (induction xs) (auto simp: sort_scenes_def length_insert_scene)





lemma retime_durations: "map duration (retime t xs) = map duration xs"
  by (induction xs arbitrary: t) auto


lemma retime_first: "xs \<noteq> [] \<Longrightarrow> start_time (hd (retime t xs)) = t"
  by (cases xs) auto










text \<open>
  Claim C5 describes lines with unparseable fields as skipped. The loop body has a \<open>catch\<close>
  block for them, but \<open>parseInt\<close> and \<open>parseFloat\<close> return \<open>NaN\<close> instead of throwing: the
  line is recorded with \<open>NaN\<close> fields, and the times of the scenes after it are \<open>NaN\<close> too.
\<close>

theorem unparseable_line_is_recorded:
  "map (\<lambda>s. (scene_number s, duration s, start_time s, end_time s))
       (parseScene (''SCENE one: fog | Duration: soon'' @ [CHR 0x0A]
                    @ ''SCENE 2: A sunset | Duration: 10 seconds''))
     = [(NaN, NaN, Fin 0, NaN), (Fin 2, Fin 10, NaN, NaN)]"
  by code_simp

subsection \<open>Descriptions\<close>











section \<open>The task registry\<close>

text \<open>
  Claim C9. \<open>updateTask\<close> throws exactly when the id is not in the registry, and then the
  registry is as before. For an id that is present the stored task is replaced by one that
  has \<open>updatedAt\<close> set to the time of the call, every other property of \<open>updates\<close> set to
  its given value, and every remaining property as it was; no other entry changes.
\<close>

theorem updateTask_merge:
  "((\<exists>err. fst (updateTask reg now taskId updates) = Inl err) = (reg taskId = None))
   \<and> (reg taskId = None \<longrightarrow>
          updateTask reg now taskId updates = (Inl (''Task '' @ taskId @ '' not found''), reg))
   \<and> (\<forall>task. reg taskId = Some task \<longrightarrow>
          (\<exists>task'. updateTask reg now taskId updates = (Inr task', reg(taskId \<mapsto> task'))
             \<and> (\<forall>k. task' k = (if k = ''updatedAt'' then Some (Date now)
                                else if k \<in> dom updates then updates k else task k))))"
  by (auto simp: updateTask_def Let_def map_add_def dom_def split: option.splits)

theorem updateTask_merge_witness:
  "(\<exists>task'. updateTask [''t1'' \<mapsto> [''status'' \<mapsto> Str ''pending'', ''progress'' \<mapsto> Num 0]] 7 ''t1'' [''progress'' \<mapsto> Num 30]
       = (Inr task', [''t1'' \<mapsto> task'])
     \<and> task' ''progress'' = Some (Num 30) \<and> task' ''status'' = Some (Str ''pending'')
     \<and> task' ''updatedAt'' = Some (Date 7))
   \<and> updateTask Map.empty 7 ''t1'' [''progress'' \<mapsto> Num 30] = (Inl ''Task t1 not found'', Map.empty)"
  using updateTask_merge[of "[''t1'' \<mapsto> [''status'' \<mapsto> Str ''pending'', ''progress'' \<mapsto> Num 0]]" 7 "''t1''" "[''progress'' \<mapsto> Num 30]"]
    updateTask_merge[of Map.empty 7 "''t1''" "[''progress'' \<mapsto> Num 30]"]
  by (auto simp: dom_def)

section \<open>Retries in the visual and the clip stage\<close>












section \<open>The reference chain of the visual stage\<close>




section \<open>The pipeline\<close>

text \<open>
  Claim C1 on the example script. The decomposition is as the claim says: two scenes with
  start times 0 and 10 and end times 10 and 20. The run, with every provider succeeding,
  ends \<open>completed\<close> at progress 100, but only the first scene reaches the stages
  (\<open>scenes.slice(0,1)\<close>): one image, one motion prompt and one clip are requested, and the
  final video is a copy of the first clip alone.
\<close>

theorem example_run_uses_first_scene_only:
  "map (\<lambda>s. (scene_number s, start_time s, end_time s)) (parseScene example_script)
     = [(Fin 1, Fin 0, Fin 10), (Fin 2, Fin 10, Fin 20)]
   \<and> (case generateVideo example_env ''ad'' ''t1'' example_world of (r, w) \<Rightarrow>
        r = Inr ''output/combined_video_2025-01-01T00-00-00.mp4''
        \<and> calls w = [ScriptReq ''ad'', ImageReq (realism_prefix @ '' A sunrise '') None,
              MotionReq (realism_prefix @ '' A sunrise ''),
              VideoReq ''output/image_01.png'' (cinematic_prefix @ ''slow pan''),
              Exec (''ffmpeg -i '' @ quoted ''output/video_01.mp4'' @ '' -c copy ''
                    @ quoted ''output/combined_video_2025-01-01T00-00-00.mp4'')]
        \<and> map_option (\<lambda>t. (t ''status'', t ''progress'')) (tasks w ''t1'')
            = Some (Some (Str ''completed''), Some (Num 100)))"
  by code_simp

section \<open>The orchestrator and the task log\<close>

lemma uab_present:
  "tasks w taskId = Some t \<Longrightarrow>
   update_and_broadcast w taskId upd
     = Inr (w \<lparr> tasks := (tasks w)(taskId \<mapsto> t ++ upd ++ [''updatedAt'' \<mapsto> Date (clock w)]),
               clock := Suc (clock w),
               broadcasts := broadcasts w
                  @ [(taskId, Some (t ++ upd ++ [''updatedAt'' \<mapsto> Date (clock w)]))] \<rparr>)"
  by (simp add: update_and_broadcast_def updateTask_def getTask_def Let_def)

lemma called_fields [simp]:
  "tasks (called w cs) = tasks w" "clock (called w cs) = clock w"
  "broadcasts (called w cs) = broadcasts w" "calls (called w cs) = calls w @ cs"
  by (simp_all add: called_def)

text \<open>
  Claim C6. When the script decomposes into no scene and the task is in the registry,
  \<open>generateVideo\<close> throws \<open>Failed to parse scenes from script\<close>; the only call made to the
  world is the one script request (no image, motion prompt, clip or tool call, and no second
  script request); the task is broadcast as \<open>running\<close> and then as \<open>failed\<close>, and is left
  \<open>failed\<close> with that message as its \<open>error\<close>.
\<close>

theorem no_scenes_fails_task:
  assumes "script_reply e prompt = Some script" and "parseScene script = []"
    and "tasks w taskId = Some t"
  shows "case generateVideo e prompt taskId w of (r, w') \<Rightarrow>
           r = Inl ''Failed to parse scenes from script''
           \<and> calls w' = calls w @ [ScriptReq prompt]
           \<and> map (\<lambda>(i, snap). (i, map_option (\<lambda>t. t ''status'') snap))
                 (drop (length (broadcasts w)) (broadcasts w'))
               = [(taskId, Some (Some (Str ''running''))), (taskId, Some (Some (Str ''failed'')))]
           \<and> map_option (\<lambda>t. (t ''status'', t ''error'')) (tasks w' taskId)
               = Some (Some (Str ''failed''), Some (Str ''Failed to parse scenes from script''))"
  using assms
  by (simp add: generateVideo_def generateVideo_try_def generateScript_def uab_present Let_def)

theorem no_scenes_fails_task_witness:
  "case generateVideo refusing_env ''ad'' ''t1'' example_world of (r, w') \<Rightarrow>
           r = Inl ''Failed to parse scenes from script''
           \<and> calls w' = calls example_world @ [ScriptReq ''ad'']
           \<and> map (\<lambda>(i, snap). (i, map_option (\<lambda>t. t ''status'') snap))
                 (drop (length (broadcasts example_world)) (broadcasts w'))
               = [(''t1'', Some (Some (Str ''running''))), (''t1'', Some (Some (Str ''failed'')))]
           \<and> map_option (\<lambda>t. (t ''status'', t ''error'')) (tasks w' ''t1'')
               = Some (Some (Str ''failed''), Some (Str ''Failed to parse scenes from script''))"
proof -
  have a: "script_reply refusing_env ''ad'' = Some ''Sorry, I cannot help with that.''"
    by (simp add: refusing_env_def)
  have b: "parseScene ''Sorry, I cannot help with that.'' = []" by code_simp
  have c: "tasks example_world ''t1''
      = Some (fst (createTask Map.empty ''t1'' 0 (Str ''video'') (Obj [(''prompt'', Str ''ad'')])))"
    by (simp add: example_world_def createTask_def Let_def)
  show ?thesis by (rule no_scenes_fails_task[OF a b c])
qed

lemma generate_try_log:
  assumes "tasks w taskId = Some t" and "t ''status'' = Some (Str ''running'')"
    and "generate_try e scenes taskId w = (r, w')"
  shows "\<exists>snaps. broadcasts w' = broadcasts w @ map (\<lambda>s. (taskId, Some s)) snaps
           \<and> tasks w' taskId = Some (last (t # snaps))
           \<and> list_all (\<lambda>s. s ''status'' = Some (Str ''running'')) snaps
           \<and> map (\<lambda>s. s ''progress'') snaps
                \<in> {[Some (Num 40)], [Some (Num 40), Some (Num 60)],
                    [Some (Num 40), Some (Num 60), Some (Num 80)]}"
proof -
  let ?u40 = "[''progress'' \<mapsto> Num 40, ''message'' \<mapsto> Str ''Generating images for scenes...'']"
  let ?t1 = "t ++ ?u40 ++ [''updatedAt'' \<mapsto> Date (clock w)]"
  let ?u60 = "[''progress'' \<mapsto> Num 60, ''message'' \<mapsto> Str ''Generating videos from images...'']"
  let ?t2 = "?t1 ++ ?u60 ++ [''updatedAt'' \<mapsto> Date (Suc (clock w))]"
  let ?u80 = "[''progress'' \<mapsto> Num 80, ''message'' \<mapsto> Str ''Concatenating videos with transitions...'']"
  let ?t3 = "?t2 ++ ?u80 ++ [''updatedAt'' \<mapsto> Date (Suc (Suc (clock w)))]"
  have cases: "(broadcasts w' = broadcasts w @ map (\<lambda>s. (taskId, Some s)) [?t1] \<and> tasks w' taskId = Some ?t1)
     \<or> (broadcasts w' = broadcasts w @ map (\<lambda>s. (taskId, Some s)) [?t1, ?t2] \<and> tasks w' taskId = Some ?t2)
     \<or> (broadcasts w' = broadcasts w @ map (\<lambda>s. (taskId, Some s)) [?t1, ?t2, ?t3] \<and> tasks w' taskId = Some ?t3)"
    using assms(1,3)
    by (auto simp: generate_try_def uab_present Let_def
             split: prod.splits option.splits if_splits)
  have s1: "?t1 ''status'' = Some (Str ''running'')" "?t1 ''progress'' = Some (Num 40)"
    using assms(2) by (simp_all add: map_add_def)
  have s2: "?t2 ''status'' = Some (Str ''running'')" "?t2 ''progress'' = Some (Num 60)"
    using assms(2) by (simp_all add: map_add_def)
  have s3: "?t3 ''status'' = Some (Str ''running'')" "?t3 ''progress'' = Some (Num 80)"
    using assms(2) by (simp_all add: map_add_def)
  from cases show ?thesis
  proof (elim disjE conjE)
    assume "broadcasts w' = broadcasts w @ map (\<lambda>s. (taskId, Some s)) [?t1]" "tasks w' taskId = Some ?t1"
    then show ?thesis using s1 by (intro exI[of _ "[?t1]"]) simp
  next
    assume "broadcasts w' = broadcasts w @ map (\<lambda>s. (taskId, Some s)) [?t1, ?t2]" "tasks w' taskId = Some ?t2"
    then show ?thesis using s1 s2 by (intro exI[of _ "[?t1, ?t2]"]) simp
  next
    assume "broadcasts w' = broadcasts w @ map (\<lambda>s. (taskId, Some s)) [?t1, ?t2, ?t3]" "tasks w' taskId = Some ?t3"
    then show ?thesis using s1 s2 s3 by (intro exI[of _ "[?t1, ?t2, ?t3]"]) simp
  qed
qed


lemma generate_result:
  "generate e scenes taskId w
     = (case generate_try e scenes taskId w of
          (None, w') \<Rightarrow> (Inl ''Failed to generate video with RunwayML'', w')
        | (Some finalVideoPath, w') \<Rightarrow> (Inr finalVideoPath, w'))"
  by (simp add: generate_def)

lemma log_shape:
  assumes snaps: "list_all (\<lambda>s. s ''status'' = Some (Str ''running'')) snaps"
    "map (\<lambda>s. s ''progress'') snaps
       \<in> {[Some (Num 40)], [Some (Num 40), Some (Num 60)],
           [Some (Num 40), Some (Num 60), Some (Num 80)]}"
    and t0: "t0 ''status'' = Some (Str ''pending'')" "t0 ''progress'' = Some (Num 0)"
    and t1: "t1 ''status'' = Some (Str ''running'')" "t1 ''progress'' = Some (Num 10)"
    and t2: "t2 ''status'' = Some (Str ''running'')" "t2 ''progress'' = Some (Num 30)"
    and fin: "(tf ''status'' = Some (Str ''failed'') \<and> tf ''progress'' = last (t2 # snaps) ''progress'')
              \<or> (tf ''status'' = Some (Str ''completed'') \<and> tf ''progress'' = Some (Num 100))"
  shows "sorted (map progress_of (Some t0 # map Some ([t1, t2] @ snaps @ [tf])))
     \<and> (remdups_adj (map status_of (Some t0 # map Some ([t1, t2] @ snaps @ [tf])))
           = [Some (Str ''pending''), Some (Str ''running''), Some (Str ''completed'')]
        \<or> remdups_adj (map status_of (Some t0 # map Some ([t1, t2] @ snaps @ [tf])))
           = [Some (Str ''pending''), Some (Str ''running''), Some (Str ''failed'')])"
proof -
  consider a where "snaps = [a]" | a b where "snaps = [a, b]" | a b c where "snaps = [a, b, c]"
    using snaps(2) by (auto simp: map_eq_Cons_conv)
  then show ?thesis
  proof cases
    case 1
    then show ?thesis using assms by (auto simp: progress_of_def status_of_def)
  next
    case 2
    then show ?thesis using assms by (auto simp: progress_of_def status_of_def)
  next
    case 3
    then show ?thesis using assms by (auto simp: progress_of_def status_of_def)
  qed
qed


lemma generateVideo_log:
  assumes t0: "tasks w taskId = Some t0" "t0 ''status'' = Some (Str ''pending'')"
      "t0 ''progress'' = Some (Num 0)"
    and run: "generateVideo e prompt taskId w = (r, w')"
  shows "sorted (map progress_of (Some t0 # map snd (drop (length (broadcasts w)) (broadcasts w'))))
     \<and> (remdups_adj (map status_of (Some t0 # map snd (drop (length (broadcasts w)) (broadcasts w'))))
           = [Some (Str ''pending''), Some (Str ''running''), Some (Str ''completed'')]
        \<or> remdups_adj (map status_of (Some t0 # map snd (drop (length (broadcasts w)) (broadcasts w'))))
           = [Some (Str ''pending''), Some (Str ''running''), Some (Str ''failed'')])
     \<and> tasks w' taskId = last (map snd (broadcasts w'))"
proof -
  define t1 where "t1 = t0 ++ [''status'' \<mapsto> Str ''running'', ''progress'' \<mapsto> Num 10,
              ''message'' \<mapsto> Str ''Generating video script...''] ++ [''updatedAt'' \<mapsto> Date (clock w)]"
  define w1 where "w1 = w \<lparr> tasks := (tasks w)(taskId \<mapsto> t1), clock := Suc (clock w),
               broadcasts := broadcasts w @ [(taskId, Some t1)] \<rparr>"
  have up1: "update_and_broadcast w taskId
             [''status'' \<mapsto> Str ''running'', ''progress'' \<mapsto> Num 10,
              ''message'' \<mapsto> Str ''Generating video script...''] = Inr w1"
    unfolding w1_def t1_def by (rule uab_present[OF t0(1)])
  have w1: "tasks w1 taskId = Some t1" "broadcasts w1 = broadcasts w @ [(taskId, Some t1)]"
    by (simp_all add: w1_def)
  have t1: "t1 ''status'' = Some (Str ''running'')" "t1 ''progress'' = Some (Num 10)"
    by (simp_all add: t1_def map_add_def)
  define ws where "ws = called w1 [ScriptReq prompt]"
  have ws: "tasks ws taskId = Some t1" "broadcasts ws = broadcasts w @ [(taskId, Some t1)]"
    by (simp_all add: ws_def w1)
  have short: ?thesis
    if tr: "generateVideo_try e prompt taskId w = (Inl err, ws)" for err
  proof -
    define tf where "tf = t1 ++ [''status'' \<mapsto> Str ''failed'', ''error'' \<mapsto> Str err]
                  ++ [''updatedAt'' \<mapsto> Date (clock ws)]"
    define wf where "wf = ws \<lparr> tasks := (tasks ws)(taskId \<mapsto> tf), clock := Suc (clock ws),
               broadcasts := broadcasts ws @ [(taskId, Some tf)] \<rparr>"
    have upf: "update_and_broadcast ws taskId
             [''status'' \<mapsto> Str ''failed'', ''error'' \<mapsto> Str err] = Inr wf"
      unfolding wf_def tf_def by (rule uab_present[OF ws(1)])
    have tf: "tf ''status'' = Some (Str ''failed'')" "tf ''progress'' = Some (Num 10)"
      using t1 by (simp_all add: tf_def map_add_def)
    have "w' = wf" using run tr upf by (simp add: generateVideo_def)
    then have "broadcasts w' = broadcasts w @ [(taskId, Some t1), (taskId, Some tf)]"
      and "tasks w' taskId = Some tf"
      by (simp_all add: wf_def ws)
    then show ?thesis using t0 t1 tf by (simp add: progress_of_def status_of_def)
  qed
  show ?thesis
  proof (cases "script_reply e prompt")
    case None
    then have "generateVideo_try e prompt taskId w = (Inl ''Failed to generate video script'', ws)"
      by (simp add: generateVideo_try_def up1 generateScript_def ws_def)
    then show ?thesis by (rule short)
  next
    case (Some script)
    show ?thesis
    proof (cases "parseScene script = []")
      case True
      then have "generateVideo_try e prompt taskId w = (Inl ''Failed to parse scenes from script'', ws)"
        using Some by (simp add: generateVideo_try_def up1 generateScript_def ws_def)
      then show ?thesis by (rule short)
    next
      case False
      define t2 where "t2 = t1 ++ [''progress'' \<mapsto> Num 30,
                  ''message'' \<mapsto> Str ''Script generated, creating video...'']
                  ++ [''updatedAt'' \<mapsto> Date (clock ws)]"
      define w3 where "w3 = ws \<lparr> tasks := (tasks ws)(taskId \<mapsto> t2), clock := Suc (clock ws),
               broadcasts := broadcasts ws @ [(taskId, Some t2)] \<rparr>"
      have up2: "update_and_broadcast ws taskId
             [''progress'' \<mapsto> Num 30, ''message'' \<mapsto> Str ''Script generated, creating video...''] = Inr w3"
        unfolding w3_def t2_def by (rule uab_present[OF ws(1)])
      have w3: "tasks w3 taskId = Some t2"
        "broadcasts w3 = broadcasts w @ [(taskId, Some t1), (taskId, Some t2)]"
        by (simp_all add: w3_def ws)
      have t2: "t2 ''status'' = Some (Str ''running'')" "t2 ''progress'' = Some (Num 30)"
        using t1 by (simp_all add: t2_def map_add_def)
      obtain rg w4 where g: "generate_try e (take 1 (parseScene script)) taskId w3 = (rg, w4)"
        by (cases "generate_try e (take 1 (parseScene script)) taskId w3") auto
      have "\<exists>snaps. broadcasts w4 = broadcasts w3 @ map (\<lambda>s. (taskId, Some s)) snaps
           \<and> tasks w4 taskId = Some (last (t2 # snaps))
           \<and> list_all (\<lambda>s. s ''status'' = Some (Str ''running'')) snaps
           \<and> map (\<lambda>s. s ''progress'') snaps
                \<in> {[Some (Num 40)], [Some (Num 40), Some (Num 60)],
                    [Some (Num 40), Some (Num 60), Some (Num 80)]}"
        by (rule generate_try_log[OF w3(1) t2(1) g])
      then obtain snaps where sn0: "broadcasts w4 = broadcasts w3 @ map (\<lambda>s. (taskId, Some s)) snaps
           \<and> tasks w4 taskId = Some (last (t2 # snaps))
           \<and> list_all (\<lambda>s. s ''status'' = Some (Str ''running'')) snaps
           \<and> map (\<lambda>s. s ''progress'') snaps
                \<in> {[Some (Num 40)], [Some (Num 40), Some (Num 60)],
                    [Some (Num 40), Some (Num 60), Some (Num 80)]}" ..
      have sn: "broadcasts w4 = broadcasts w3 @ map (\<lambda>s. (taskId, Some s)) snaps"
          "tasks w4 taskId = Some (last (t2 # snaps))"
          "list_all (\<lambda>s. s ''status'' = Some (Str ''running'')) snaps"
          "map (\<lambda>s. s ''progress'') snaps
                \<in> {[Some (Num 40)], [Some (Num 40), Some (Num 60)],
                    [Some (Num 40), Some (Num 60), Some (Num 80)]}"
        using sn0 by (rule conjunct1, rule conjunct2[THEN conjunct1],
          rule conjunct2[THEN conjunct2, THEN conjunct1], rule conjunct2[THEN conjunct2, THEN conjunct2])
      have tryv: "generateVideo_try e prompt taskId w
          = (case rg of
               None \<Rightarrow> (Inl ''Failed to generate video with RunwayML'', w4)
             | Some None \<Rightarrow> (Inl ''Video generation failed'', w4)
             | Some (Some videoPath) \<Rightarrow>
                 (if videoPath = [] then (Inl ''Video generation failed'', w4)
                  else (case update_and_broadcast w4 taskId
                               [''status'' \<mapsto> Str ''completed'', ''progress'' \<mapsto> Num 100,
                                ''message'' \<mapsto> Str ''Video generation completed successfully!'',
                                ''data'' \<mapsto> Obj [(''videoPath'', Str videoPath)]] of
                          Inl err \<Rightarrow> (Inl err, w4)
                        | Inr w5 \<Rightarrow> (Inr videoPath, w5))))"
        using False up2 g
        by (simp add: generateVideo_try_def up1 generateScript_def Some ws_def generate_result
            split: option.splits)
      have pre: "broadcasts w4 = broadcasts w @ map (\<lambda>s. (taskId, Some s)) ([t1, t2] @ snaps)"
        using sn(1) w3(2) by simp
      have finish: ?thesis
        if wf: "tasks w' taskId = Some tf" "broadcasts w' = broadcasts w4 @ [(taskId, Some tf)]"
          and tf: "(tf ''status'' = Some (Str ''failed'') \<and> tf ''progress'' = last (t2 # snaps) ''progress'')
              \<or> (tf ''status'' = Some (Str ''completed'') \<and> tf ''progress'' = Some (Num 100))"
        for tf
      proof -
        have b: "map snd (drop (length (broadcasts w)) (broadcasts w'))
                   = map Some ([t1, t2] @ snaps @ [tf])"
          using wf(2) pre by (simp add: comp_def)
        have "tasks w' taskId = last (map snd (broadcasts w'))" using wf by simp
        then show ?thesis
          using log_shape[OF sn(3,4) t0(2,3) t1 t2 tf] unfolding b by blast
      qed
      have failed: ?thesis if tr: "generateVideo_try e prompt taskId w = (Inl err, w4)" for err
      proof -
        define tf where "tf = last (t2 # snaps) ++ [''status'' \<mapsto> Str ''failed'', ''error'' \<mapsto> Str err]
                      ++ [''updatedAt'' \<mapsto> Date (clock w4)]"
        define wf where "wf = w4 \<lparr> tasks := (tasks w4)(taskId \<mapsto> tf), clock := Suc (clock w4),
               broadcasts := broadcasts w4 @ [(taskId, Some tf)] \<rparr>"
        have upf: "update_and_broadcast w4 taskId
                 [''status'' \<mapsto> Str ''failed'', ''error'' \<mapsto> Str err] = Inr wf"
          unfolding wf_def tf_def by (rule uab_present[OF sn(2)])
        have tf: "tf ''status'' = Some (Str ''failed'') \<and> tf ''progress'' = last (t2 # snaps) ''progress''"
          by (simp add: tf_def map_add_def)
        have w': "w' = wf" using run tr upf by (simp add: generateVideo_def)
        show ?thesis
          by (rule finish[of tf]) (simp_all add: w' wf_def tf)
      qed
      show ?thesis
      proof (cases rg)
        case None
        then show ?thesis using tryv failed by simp
      next
        case rgs: (Some fp)
        show ?thesis
        proof (cases fp)
          case None
          then show ?thesis using tryv failed rgs by simp
        next
          case fps: (Some videoPath)
          show ?thesis
          proof (cases "videoPath = []")
            case True
            then show ?thesis using tryv failed rgs fps by simp
          next
            case nonempty: False
            define tf where "tf = last (t2 # snaps) ++ [''status'' \<mapsto> Str ''completed'', ''progress'' \<mapsto> Num 100,
                      ''message'' \<mapsto> Str ''Video generation completed successfully!'',
                      ''data'' \<mapsto> Obj [(''videoPath'', Str videoPath)]]
                          ++ [''updatedAt'' \<mapsto> Date (clock w4)]"
            define wf where "wf = w4 \<lparr> tasks := (tasks w4)(taskId \<mapsto> tf), clock := Suc (clock w4),
               broadcasts := broadcasts w4 @ [(taskId, Some tf)] \<rparr>"
            have upf: "update_and_broadcast w4 taskId
                     [''status'' \<mapsto> Str ''completed'', ''progress'' \<mapsto> Num 100,
                      ''message'' \<mapsto> Str ''Video generation completed successfully!'',
                      ''data'' \<mapsto> Obj [(''videoPath'', Str videoPath)]] = Inr wf"
              unfolding wf_def tf_def by (rule uab_present[OF sn(2)])
            have tf: "tf ''status'' = Some (Str ''completed'') \<and> tf ''progress'' = Some (Num 100)"
              by (simp add: tf_def map_add_def)
            have "generateVideo_try e prompt taskId w = (Inr videoPath, wf)"
              using tryv rgs fps nonempty upf by simp
            then have w': "w' = wf" using run by (simp add: generateVideo_def)
            show ?thesis
              by (rule finish[of tf]) (simp_all add: w' wf_def tf)
          qed
        qed
      qed
    qed
  qed
qed

text \<open>
  Claim C7. For a task made by \<open>createTask\<close> and then driven by \<open>generateVideo\<close>, in any
  world: the progress values of the task as created and as broadcast after each update are
  non-decreasing, and its statuses, with repetitions dropped, are
  \<open>pending, running, completed\<close> or \<open>pending, running, failed\<close>. The last broadcast shows the
  task as the registry holds it at the end. Every run of the model ends, since the world
  always answers; a provider call that never returns is outside the model.
\<close>

theorem task_log_monotone:
  "case createTask reg taskId now type data of (t0, reg') \<Rightarrow>
     (case generateVideo e prompt taskId \<lparr> tasks = reg', clock = c, broadcasts = bs, calls = cs \<rparr> of
        (r, w') \<Rightarrow>
          sorted (map progress_of (Some t0 # map snd (drop (length bs) (broadcasts w'))))
          \<and> (remdups_adj (map status_of (Some t0 # map snd (drop (length bs) (broadcasts w'))))
                = [Some (Str ''pending''), Some (Str ''running''), Some (Str ''completed'')]
             \<or> remdups_adj (map status_of (Some t0 # map snd (drop (length bs) (broadcasts w'))))
                = [Some (Str ''pending''), Some (Str ''running''), Some (Str ''failed'')])
          \<and> tasks w' taskId = last (map snd (broadcasts w')))"
proof -
  obtain t0 reg' where c: "createTask reg taskId now type data = (t0, reg')"
    by (cases "createTask reg taskId now type data") auto
  have t0: "reg' taskId = Some t0" "t0 ''status'' = Some (Str ''pending'')" "t0 ''progress'' = Some (Num 0)"
    using c by (auto simp: createTask_def Let_def)
  obtain r w' where run: "generateVideo e prompt taskId \<lparr> tasks = reg', clock = c, broadcasts = bs, calls = cs \<rparr> = (r, w')"
    by (cases "generateVideo e prompt taskId \<lparr> tasks = reg', clock = c, broadcasts = bs, calls = cs \<rparr>") auto
  show ?thesis
    using generateVideo_log[OF _ t0(2,3) run] t0(1) by (simp add: c run)
qed

text \<open>The log of the example run.\<close>

lemma example_run_log:
  "map (\<lambda>s. (status_of s, progress_of s))
       (map snd (broadcasts (snd (generateVideo example_env ''ad'' ''t1'' example_world))))
     = [(Some (Str ''running''), 10), (Some (Str ''running''), 30), (Some (Str ''running''), 40),
        (Some (Str ''running''), 60), (Some (Str ''running''), 80), (Some (Str ''completed''), 100)]"
  by code_simp

section \<open>Cleanup after assembly\<close>

text \<open>
  Claim C8, as the code has it. When the command was built and the tool has succeeded, the
  assembly returns the final path if there is no manifest to remove or its removal
  succeeds; when the removal fails the assembly returns \<open>null\<close>, because the removal stands
  in the same \<open>try\<close> block as the rest.
\<close>

theorem concatenateVideos_cleanup:
  assumes "valid_paths e videoPaths \<noteq> []"
    and "outputPath = path_join e (outputDir e) (''combined_video_'' @ timestamp e @ ''.mp4'')"
    and "fileListPath = path_join e (path_dirname e outputPath) ''filelist.txt''"
    and "createFFmpegConcatenationCommand e (valid_paths e videoPaths) outputPath = (Some ffmpegCommand, written)"
    and "exec_ok e ffmpegCommand"
  shows "fst (concatenateVideos e videoPaths)
           = (if (written \<noteq> [] \<or> path_exists e fileListPath) \<and> \<not> remove_ok e fileListPath
              then None else Some outputPath)"
proof -
  have "videoPaths \<noteq> []" using assms(1) by auto
  then show ?thesis using assms by (simp add: concatenateVideos_def Let_def)
qed

theorem concatenateVideos_cleanup_witness:
  "fst (concatenateVideos example_env [Some ''/srv/video_01.mp4'', Some ''/srv/video_02.mp4''])
     = Some ''output/combined_video_2025-01-01T00-00-00.mp4''"
proof -
  have a: "valid_paths example_env [Some ''/srv/video_01.mp4'', Some ''/srv/video_02.mp4''] \<noteq> []"
    by code_simp
  have o: "''output/combined_video_2025-01-01T00-00-00.mp4''
             = path_join example_env (outputDir example_env)
                 (''combined_video_'' @ timestamp example_env @ ''.mp4'')"
    by code_simp
  have f: "''output/filelist.txt''
             = path_join example_env (path_dirname example_env ''output/combined_video_2025-01-01T00-00-00.mp4'')
                 ''filelist.txt''"
    by code_simp
  have c: "createFFmpegConcatenationCommand example_env
             (valid_paths example_env [Some ''/srv/video_01.mp4'', Some ''/srv/video_02.mp4''])
             ''output/combined_video_2025-01-01T00-00-00.mp4''
          = (Some (''ffmpeg -f concat -safe 0 -i '' @ quoted ''output/filelist.txt'' @ '' -c copy ''
               @ quoted ''output/combined_video_2025-01-01T00-00-00.mp4''),
             [WriteFile ''output/filelist.txt''
               (manifest_line ''/srv/video_01.mp4'' @ [CHR 0x0A] @ manifest_line ''/srv/video_02.mp4'')])"
    by code_simp
  have x: "exec_ok example_env (''ffmpeg -f concat -safe 0 -i '' @ quoted ''output/filelist.txt'' @ '' -c copy ''
               @ quoted ''output/combined_video_2025-01-01T00-00-00.mp4'')"
    by code_simp
  have r: "remove_ok example_env ''output/filelist.txt''" by code_simp
  show ?thesis
    using concatenateVideos_cleanup[OF a o f c x] r by (simp only: simp_thms if_False)
qed

text \<open>
  The claim C8 as stated fails: with two clips, a tool that succeeds and a manifest that
  cannot be removed, the assembly returns \<open>null\<close> after the tool has run; and a run of the
  pipeline that finds a manifest it cannot remove ends \<open>failed\<close> although the tool produced
  the final video.
\<close>

theorem cleanup_failure_loses_artifact:
  "concatenateVideos removal_fails [Some ''/srv/video_01.mp4'', Some ''/srv/video_02.mp4'']
     = (None,
        [WriteFile ''output/filelist.txt''
           (manifest_line ''/srv/video_01.mp4'' @ [CHR 0x0A] @ manifest_line ''/srv/video_02.mp4''),
         Exec (''ffmpeg -f concat -safe 0 -i '' @ quoted ''output/filelist.txt'' @ '' -c copy ''
               @ quoted ''output/combined_video_2025-01-01T00-00-00.mp4''),
         RemoveFile ''output/filelist.txt''])
   \<and> exec_ok removal_fails (''ffmpeg -f concat -safe 0 -i '' @ quoted ''output/filelist.txt'' @ '' -c copy ''
               @ quoted ''output/combined_video_2025-01-01T00-00-00.mp4'')
   \<and> (case generateVideo removal_fails ''ad'' ''t1'' example_world of (r, w) \<Rightarrow>
         r = Inl ''Video generation failed''
         \<and> last (calls w) = RemoveFile ''output/filelist.txt''
         \<and> map_option (\<lambda>t. (t ''status'', t ''error'')) (tasks w ''t1'')
            = Some (Some (Str ''failed''), Some (Str ''Video generation failed'')))"
  by code_simp

end
